theory Spec2Isabelle
  imports Main
begin

section \<open>Python values, errors and dictionaries\<close>

text \<open>
  Cell values, row labels and selection bounds are integers or strings. Floating point
  values are not modelled.
\<close>

datatype pyval = PInt int | PStr string

text \<open>
  The exceptions the module can raise. \<open>Exception\<close> carries its message because the source
  builds one; the other classes are the ones raised by the list, dictionary and frame
  operations the module calls (\<open>RuntimeError\<close> by a dictionary that changes size while
  it is iterated). \<open>Dangling\<close> is not a Python exception: it is the model's
  answer when an address that holds no object is dereferenced, which no run of the
  program does.
\<close>

datatype error =
  Exception string | KeyError | ValueError | TypeError | IndexError | RuntimeError | Dangling

text \<open>\<open>isinstance(e, TypeError)\<close>: a plain \<open>Exception\<close> is not an instance of its subclass.\<close>

fun is_TypeError :: "error \<Rightarrow> bool" where
  "is_TypeError TypeError = True"
| "is_TypeError _ = False"

text \<open>Truth value of a Python integer or string, as tested by \<open>if x\<close>.\<close>

fun truthy :: "pyval \<Rightarrow> bool" where
  "truthy (PInt i) = (i \<noteq> 0)"
| "truthy (PStr s) = (s \<noteq> [])"

text \<open>
  A dictionary is an association list with one entry per key, in insertion order.
  Assigning to a key that is present replaces its value in place.
\<close>

fun dict_set :: "('k \<times> 'v) list \<Rightarrow> 'k \<Rightarrow> 'v \<Rightarrow> ('k \<times> 'v) list" where
  "dict_set [] k v = [(k, v)]"
| "dict_set ((k', v') # d) k v =
     (if k' = k then (k', v) # d else (k', v') # dict_set d k v)"

text \<open>\<open>d[k].append(x)\<close> on a \<open>defaultdict(list)\<close>.\<close>

fun dict_append :: "('k \<times> 'v list) list \<Rightarrow> 'k \<Rightarrow> 'v \<Rightarrow> ('k \<times> 'v list) list" where
  "dict_append [] k x = [(k, [x])]"
| "dict_append ((k', xs) # d) k x =
     (if k' = k then (k', xs @ [x]) # d else (k', xs) # dict_append d k x)"

text \<open>\<open>d.pop(k)\<close>: removes the entry, \<open>KeyError\<close> when the key is absent.\<close>

definition dict_pop :: "('k \<times> 'v) list \<Rightarrow> 'k \<Rightarrow> error + ('k \<times> 'v) list" where
  "dict_pop d k =
     (if k \<in> set (map fst d) then Inr (filter (\<lambda>kv. fst kv \<noteq> k) d) else Inl KeyError)"

text \<open>Position of the first occurrence; \<open>xs.index(x)\<close> raises \<open>ValueError\<close> when there is none.\<close>

fun pos :: "'a list \<Rightarrow> 'a \<Rightarrow> nat option" where
  "pos [] x = None"
| "pos (y # ys) x = (if y = x then Some 0 else map_option Suc (pos ys x))"

definition list_index :: "'a list \<Rightarrow> 'a \<Rightarrow> error + nat" where
  "list_index xs x = (case pos xs x of None \<Rightarrow> Inl ValueError | Some i \<Rightarrow> Inr i)"

text \<open>A list comprehension whose element expression can raise: the first error wins.\<close>

fun emap :: "('a \<Rightarrow> error + 'b) \<Rightarrow> 'a list \<Rightarrow> error + 'b list" where
  "emap f [] = Inr []"
| "emap f (x # xs) =
     (case f x of Inl e \<Rightarrow> Inl e
      | Inr y \<Rightarrow> (case emap f xs of Inl e \<Rightarrow> Inl e | Inr ys \<Rightarrow> Inr (y # ys)))"

section \<open>The data frame\<close>

text \<open>
  A frame has column labels, one data type per column, and rows; a row is its label
  (the row identifier) and its cells in column order. Row labels may repeat, as they do
  after frames are concatenated. A column of integers in the signed 64-bit range has
  the type \<open>Int64\<close>; any other column holds Python objects. A frame is rectangular:
  every row has one cell per column, and there is one data type per column. Cells are
  read by position; in a rectangular frame the position of a column is within every
  row.
\<close>

datatype dtype = Int64 | Object

record frame =
  columns :: "string list"
  dtypes :: "dtype list"
  rows :: "(pyval \<times> pyval list) list"

definition rectangular :: "frame \<Rightarrow> bool" where
  "rectangular f =
     (length (dtypes f) = length (columns f) \<and>
      list_all (\<lambda>r. length (snd r) = length (columns f)) (rows f))"

text \<open>
  \<open>df.index\<close> and \<open>df.values\<close>. The array \<open>df.values\<close> has one element type: 64-bit
  integers when every column is \<open>Int64\<close>, else Python objects (the integers of an
  \<open>Int64\<close> column are then boxed as Python integers).
\<close>

definition frame_index :: "frame \<Rightarrow> pyval list" where
  "frame_index f = map fst (rows f)"

definition frame_values :: "frame \<Rightarrow> pyval list list" where
  "frame_values f = map snd (rows f)"

definition values_dtype :: "frame \<Rightarrow> dtype" where
  "values_dtype f = (if list_all (\<lambda>t. t = Int64) (dtypes f) then Int64 else Object)"

text \<open>Arithmetic on 64-bit integers wraps around into the signed range.\<close>

definition wrap64 :: "int \<Rightarrow> int" where
  "wrap64 x = (x + 2 ^ 63) mod 2 ^ 64 - 2 ^ 63"

text \<open>
  \<open>df.filter(items)\<close>: the columns named in \<open>items\<close> that the frame has, in the order of
  \<open>items\<close>, each with its data type; labels the frame lacks are skipped silently.
\<close>

definition frame_filter :: "frame \<Rightarrow> string list \<Rightarrow> frame" where
  "frame_filter f items =
     (let kept = concat (map (\<lambda>d. case pos (columns f) d of None \<Rightarrow> [] | Some i \<Rightarrow> [(d, i)]) items)
      in \<lparr>columns = map fst kept,
          dtypes = map (\<lambda>di. dtypes f ! snd di) kept,
          rows = map (\<lambda>r. (fst r, map (\<lambda>di. snd r ! snd di) kept)) (rows f)\<rparr>)"

text \<open>
  \<open>df.loc[ind, d]\<close>: \<open>KeyError\<close> when no row has the label or no column has the name; the
  cell when exactly one row and one column match; otherwise a series or frame, whose
  content is not modelled.
\<close>

datatype locres = Scalar pyval | NonScalar

definition loc :: "frame \<Rightarrow> pyval \<Rightarrow> string \<Rightarrow> error + locres" where
  "loc f ind d =
     (case filter (\<lambda>r. fst r = ind) (rows f) of
        [] \<Rightarrow> Inl KeyError
      | r # rs \<Rightarrow>
          (case pos (columns f) d of
             None \<Rightarrow> Inl KeyError
           | Some i \<Rightarrow>
               if rs = [] \<and> count_list (columns f) d = 1 then Inr (Scalar (snd r ! i))
               else Inr NonScalar))"

text \<open>
  Group keys are put in ascending order (the host library's default). Integers are
  placed before strings; strings are ordered by character code.
\<close>

fun str_less :: "string \<Rightarrow> string \<Rightarrow> bool" where
  "str_less [] [] = False"
| "str_less [] (y # ys) = True"
| "str_less (x # xs) [] = False"
| "str_less (x # xs) (y # ys) =
     ((of_char x :: nat) < of_char y \<or> (x = y \<and> str_less xs ys))"

fun pyval_less :: "pyval \<Rightarrow> pyval \<Rightarrow> bool" where
  "pyval_less (PInt a) (PInt b) = (a < b)"
| "pyval_less (PInt a) (PStr b) = True"
| "pyval_less (PStr a) (PInt b) = False"
| "pyval_less (PStr a) (PStr b) = str_less a b"

fun key_less :: "pyval list \<Rightarrow> pyval list \<Rightarrow> bool" where
  "key_less [] [] = False"
| "key_less [] (y # ys) = True"
| "key_less (x # xs) [] = False"
| "key_less (x # xs) (y # ys) = (pyval_less x y \<or> (x = y \<and> key_less xs ys))"

fun insert_key :: "pyval list \<Rightarrow> pyval list list \<Rightarrow> pyval list list" where
  "insert_key k [] = [k]"
| "insert_key k (x # xs) = (if key_less x k then x # insert_key k xs else k # x # xs)"

definition sort_keys :: "pyval list list \<Rightarrow> pyval list list" where
  "sort_keys ks = foldr insert_key ks []"

text \<open>
  \<open>df.groupby(dims)\<close>, iterated: one pair of group key and sub-frame per distinct
  combination of values in the grouping columns. A sub-frame keeps all columns and, in
  their order, the rows with that combination. The key of a group is the list of its
  values in the grouping columns. \<open>KeyError\<close> when a grouping column is missing,
  \<open>ValueError\<close> when one is duplicated.
\<close>

definition row_key :: "nat list \<Rightarrow> pyval \<times> pyval list \<Rightarrow> pyval list" where
  "row_key idxs r = map (\<lambda>i. snd r ! i) idxs"

definition groupby :: "frame \<Rightarrow> string list \<Rightarrow> error + (pyval list \<times> frame) list" where
  "groupby f dims =
     (if list_ex (\<lambda>d. d \<notin> set (columns f)) dims then Inl KeyError
      else if list_ex (\<lambda>d. count_list (columns f) d \<noteq> 1) dims then Inl ValueError
      else
        let idxs = concat (map (\<lambda>d. case pos (columns f) d of None \<Rightarrow> [] | Some i \<Rightarrow> [i]) dims);
            keys = sort_keys (remdups (map (row_key idxs) (rows f)))
        in Inr (map (\<lambda>k. (k, f\<lparr>rows := filter (\<lambda>r. row_key idxs r = k) (rows f)\<rparr>)) keys))"

section \<open>The tabular view wrapper\<close>

text \<open>
  \<open>DFrameView\<close> inherits its parameters from \<open>View\<close>, which is not part of this module.
  Modelled from the spec: a wrapper holds its frame, a list of dimensions that are looked
  up by label, and a label; \<open>ndims\<close> is the number of its dimensions. The record is
  polymorphic in how the frame is held: by value where an operation only reads it, by
  address where object identity matters.
\<close>

datatype dimension = Dimension string

fun dim_name :: "dimension \<Rightarrow> string" where
  "dim_name (Dimension n) = n"

record 'd DFrameView =
  data :: 'd
  dimensions :: "dimension list"
  label :: string

definition dimension_labels :: "'d DFrameView \<Rightarrow> string list" where
  "dimension_labels self = map dim_name (dimensions self)"

definition ndims :: "'d DFrameView \<Rightarrow> nat" where
  "ndims self = length (dimensions self)"

text \<open>\<open>self.dim_dict[d]\<close> and \<open>self.dim_dict.get(d, d)\<close>.\<close>

datatype dimspec = DimObj dimension | DimLabel string

definition dim_dict :: "'d DFrameView \<Rightarrow> string \<Rightarrow> error + dimension" where
  "dim_dict self d =
     (case find (\<lambda>x. dim_name x = d) (dimensions self) of
        None \<Rightarrow> Inl KeyError | Some x \<Rightarrow> Inr x)"

definition dim_dict_get :: "'d DFrameView \<Rightarrow> string \<Rightarrow> dimspec" where
  "dim_dict_get self d =
     (case find (\<lambda>x. dim_name x = d) (dimensions self) of
        None \<Rightarrow> DimLabel d | Some x \<Rightarrow> DimObj x)"

section \<open>The view export routine\<close>

text \<open>
  A key of the export dictionary is a bare value or a tuple of values. While a key is
  being built its components are results of \<open>loc\<close>; storing under it hashes it, which
  raises \<open>TypeError\<close> for a component that is not a scalar.
\<close>

datatype key = KScalar pyval | KTuple "pyval list"

datatype rawkey = Bare locres | Tup "locres list"

fun scalars :: "locres list \<Rightarrow> error + pyval list" where
  "scalars [] = Inr []"
| "scalars (Scalar v # cs) =
     (case scalars cs of Inl e \<Rightarrow> Inl e | Inr vs \<Rightarrow> Inr (v # vs))"
| "scalars (NonScalar # cs) = Inl TypeError"

fun hash_key :: "rawkey \<Rightarrow> error + key" where
  "hash_key (Bare (Scalar v)) = Inr (KScalar v)"
| "hash_key (Bare NonScalar) = Inl TypeError"
| "hash_key (Tup cs) = (case scalars cs of Inl e \<Rightarrow> Inl e | Inr vs \<Rightarrow> Inr (KTuple vs))"

type_synonym temp_dict = "(key \<times> locres) list"

text \<open>
  The target views. Their constructors belong to another module. Modelled from the spec:
  a constructor takes the mapping, the label, the value dimension and the dimension list,
  and keeps them. \<open>Table\<close> receives value and dimensions together or not at all.
\<close>

datatype view =
    Table temp_dict string "(string \<times> dimspec list) option"
  | HeatMap temp_dict string "dimspec list" dimension

datatype view_method = create_table | create_heatmap

datatype stack_type = TableStack | DataStack

definition DFrameView_create_table ::
  "'d DFrameView \<Rightarrow> temp_dict \<Rightarrow> string \<Rightarrow> string list \<Rightarrow> error + view" where
  "DFrameView_create_table self temp value_dim dims =
     Inr (Table temp (label self)
            (if dims \<noteq> [] then Some (value_dim, map (dim_dict_get self) dims) else None))"

definition DFrameView_create_heatmap ::
  "'d DFrameView \<Rightarrow> temp_dict \<Rightarrow> string \<Rightarrow> string list \<Rightarrow> error + view" where
  "DFrameView_create_heatmap self temp value_dim dims =
     (case dim_dict self value_dim of
        Inl e \<Rightarrow> Inl e
      | Inr v \<Rightarrow> Inr (HeatMap temp (label self) (map (dim_dict_get self) dims) v))"

fun call_view_method ::
  "view_method \<Rightarrow> 'd DFrameView \<Rightarrow> temp_dict \<Rightarrow> string \<Rightarrow> string list \<Rightarrow> error + view" where
  "call_view_method create_table = DFrameView_create_table"
| "call_view_method create_heatmap = DFrameView_create_heatmap"

text \<open>
  A reduction function takes the collected values of one key and may raise. The values
  are elements of \<open>stack_group.values\<close>; the first argument is their element type.
\<close>

type_synonym reducer = "dtype \<Rightarrow> pyval list \<Rightarrow> error + locres"

text \<open>
  Python's \<open>sum\<close>: starts from 0 and adds from the left; adding a string raises. Python
  integers are unbounded; a sum with a 64-bit integer is a 64-bit integer and wraps
  around.
\<close>

fun py_sum_from :: "int \<Rightarrow> pyval list \<Rightarrow> error + int" where
  "py_sum_from acc [] = Inr acc"
| "py_sum_from acc (PInt i # vs) = py_sum_from (acc + i) vs"
| "py_sum_from acc (PStr s # vs) = Inl TypeError"

fun int64_sum_from :: "int \<Rightarrow> pyval list \<Rightarrow> error + int" where
  "int64_sum_from acc [] = Inr acc"
| "int64_sum_from acc (PInt i # vs) = int64_sum_from (wrap64 (acc + i)) vs"
| "int64_sum_from acc (PStr s # vs) = Inl TypeError"

definition py_sum :: reducer where
  "py_sum t vs =
     (case (case t of Int64 \<Rightarrow> int64_sum_from 0 vs | Object \<Rightarrow> py_sum_from 0 vs) of
        Inl e \<Rightarrow> Inl e
      | Inr s \<Rightarrow> Inr (Scalar (PInt s)))"

text \<open>The user error check: the first selected dimension the wrapper lacks is reported.\<close>

fun check_dims :: "string list \<Rightarrow> string list \<Rightarrow> error + unit" where
  "check_dims labels [] = Inr ()"
| "check_dims labels (d # ds) =
     (if d \<notin> set labels then Inl (Exception (''DFrameView has no Dimension '' @ d @ ''.''))
      else check_dims labels ds)"

text \<open>
  The reduction branch: rows are collated by key in row order, then each list is reduced
  with the element type of the group's values; the entries stay in the order in which
  the keys first appear.
\<close>

fun collate :: "string \<Rightarrow> string list \<Rightarrow> nat \<Rightarrow> nat list \<Rightarrow> pyval list list \<Rightarrow>
    (key \<times> pyval list) list \<Rightarrow> (key \<times> pyval list) list" where
  "collate value_dim view_dims val_idx vdim_inds [] temp = temp"
| "collate value_dim view_dims val_idx vdim_inds (row # rest) temp =
     (let k = (if view_dims \<noteq> [] then KTuple (map (\<lambda>i. row ! i) vdim_inds)
               else KScalar (PStr value_dim))
      in collate value_dim view_dims val_idx vdim_inds rest (dict_append temp k (row ! val_idx)))"

definition reduce_group ::
  "reducer \<Rightarrow> string \<Rightarrow> string list \<Rightarrow> frame \<Rightarrow> error + temp_dict" where
  "reduce_group reduce_fn value_dim view_dims stack_group =
     (let cols = columns stack_group in
      case list_index cols value_dim of
        Inl e \<Rightarrow> Inl e
      | Inr val_idx \<Rightarrow>
          (case emap (list_index cols) view_dims of
             Inl e \<Rightarrow> Inl e
           | Inr vdim_inds \<Rightarrow>
               emap (\<lambda>kv. case reduce_fn (values_dtype stack_group) (snd kv) of
                            Inl e \<Rightarrow> Inl e | Inr r \<Rightarrow> Inr (fst kv, r))
                 (collate value_dim view_dims val_idx vdim_inds (frame_values stack_group) [])))"

text \<open>
  The selection branch: the loop over the index list. \<open>single\<close> is \<open>len(indices) == 1\<close>,
  tested again inside the loop on the same list. The right-hand side of the assignment
  is evaluated before the key is hashed.
\<close>

fun select_indices :: "frame \<Rightarrow> string \<Rightarrow> string list \<Rightarrow> bool \<Rightarrow> pyval list \<Rightarrow>
    temp_dict \<Rightarrow> error + temp_dict" where
  "select_indices stack_group value_dim view_dims single [] temp = Inr temp"
| "select_indices stack_group value_dim view_dims single (ind # rest) temp =
     (case emap (loc stack_group ind) view_dims of
        Inl e \<Rightarrow> Inl e
      | Inr comps \<Rightarrow>
          (let k = (if \<not> single then Scalar ind # comps else comps) in
           case (if length k > 1 then Inr (Tup k)
                 else (case k of [] \<Rightarrow> Inl IndexError | c # cs \<Rightarrow> Inr (Bare c))) of
             Inl e \<Rightarrow> Inl e
           | Inr rk \<Rightarrow>
               (case loc stack_group ind value_dim of
                  Inl e \<Rightarrow> Inl e
                | Inr v \<Rightarrow>
                    (case hash_key rk of
                       Inl e \<Rightarrow> Inl e
                     | Inr hk \<Rightarrow>
                         select_indices stack_group value_dim view_dims single rest
                           (dict_set temp hk v)))))"

text \<open>
  The variables the loop over the stack groups reads and assigns: \<open>indices\<close> and
  \<open>view_dimensions\<close> are assigned inside the loop body and keep their value into the next
  iteration; \<open>stack\<close> collects one view per stack key.
\<close>

record export_state =
  st_indices :: "pyval list"
  st_view_dimensions :: "string list"
  st_stack :: "(pyval list option \<times> view) list"

definition export_group ::
  "frame DFrameView \<Rightarrow> string \<Rightarrow> reducer option \<Rightarrow> string list \<Rightarrow> view_method \<Rightarrow>
     export_state \<Rightarrow> pyval list option \<times> frame \<Rightarrow> error + export_state" where
  "export_group self value_dim reduce_fn view_dims vm st kg =
     (let stack_key = fst kg; stack_group = snd kg in
      case
        (case reduce_fn of
           Some f \<Rightarrow>
             (case reduce_group f value_dim view_dims stack_group of
                Inl e \<Rightarrow> Inl e | Inr temp \<Rightarrow> Inr (temp, st))
         | None \<Rightarrow>
             (let st1 =
                (if \<not> length (st_indices st) = 1
                 then st\<lparr>st_indices :=
                            (if st_indices st \<noteq> [] then st_indices st
                             else frame_index stack_group),
                          st_view_dimensions := [''Index''] @ view_dims\<rparr>
                 else st)
              in case select_indices stack_group value_dim view_dims
                        (length (st_indices st1) = 1) (st_indices st1) [] of
                   Inl e \<Rightarrow> Inl e | Inr temp \<Rightarrow> Inr (temp, st1)))
      of
        Inl e \<Rightarrow> Inl e
      | Inr (temp, st2) \<Rightarrow>
          (case call_view_method vm self temp value_dim (st_view_dimensions st2) of
             Inl e \<Rightarrow> Inl e
           | Inr v \<Rightarrow> Inr (st2\<lparr>st_stack := dict_set (st_stack st2) stack_key v\<rparr>)))"

fun export_loop ::
  "frame DFrameView \<Rightarrow> string \<Rightarrow> reducer option \<Rightarrow> string list \<Rightarrow> view_method \<Rightarrow>
     export_state \<Rightarrow> (pyval list option \<times> frame) list \<Rightarrow> error + export_state" where
  "export_loop self value_dim reduce_fn view_dims vm st [] = Inr st"
| "export_loop self value_dim reduce_fn view_dims vm st (kg # rest) =
     (case export_group self value_dim reduce_fn view_dims vm st kg of
        Inl e \<Rightarrow> Inl e
      | Inr st' \<Rightarrow> export_loop self value_dim reduce_fn view_dims vm st' rest)"

text \<open>
  The groups the loop iterates over: the groups of \<open>groupby\<close> when stack dimensions are
  given (the stack is then created with their dimensions), else the whole frame under
  the key \<open>None\<close>.
\<close>

definition stack_dfs ::
  "frame DFrameView \<Rightarrow> frame \<Rightarrow> string list \<Rightarrow>
     error + (dimension list \<times> (pyval list option \<times> frame) list)" where
  "stack_dfs self df stack_dims =
     (if stack_dims \<noteq> [] then
        (case groupby df stack_dims of
           Inl e \<Rightarrow> Inl e
         | Inr gs \<Rightarrow>
             (case emap (dim_dict self) stack_dims of
                Inl e \<Rightarrow> Inl e
              | Inr ds \<Rightarrow> Inr (ds, map (\<lambda>kg. (Some (fst kg), snd kg)) gs)))
      else Inr ([], [(None, df)]))"

datatype export_result =
    SingleView view
  | StackOf stack_type "dimension list" "(pyval list option \<times> view) list"

text \<open>
  Filtering out the unselected dimensions: the frame \<open>df\<close> the export works on is the
  wrapper's frame restricted to the selected dimensions when the wrapper has a dimension
  that is not selected, else a copy of the whole frame.
\<close>

definition working_frame :: "frame DFrameView \<Rightarrow> string list \<Rightarrow> frame" where
  "working_frame self selected_dims =
     (let filter_dims = filter (\<lambda>d. d \<notin> set selected_dims) (remdups (dimension_labels self))
      in if filter_dims \<noteq> [] then frame_filter (data self) selected_dims else data self)"

definition DFrameView_export_dataview ::
  "frame DFrameView \<Rightarrow> string \<Rightarrow> pyval list \<Rightarrow> reducer option \<Rightarrow> string list \<Rightarrow>
     string list \<Rightarrow> view_method \<Rightarrow> stack_type \<Rightarrow> error + export_result" where
  "DFrameView_export_dataview self value_dim indices reduce_fn view_dims stack_dims vm stype =
     (let selected_dims = [value_dim] @ view_dims @ stack_dims in
      case check_dims (dimension_labels self) selected_dims of
        Inl e \<Rightarrow> Inl e
      | Inr u \<Rightarrow>
          (let df = working_frame self selected_dims
           in case stack_dfs self df stack_dims of
                Inl e \<Rightarrow> Inl e
              | Inr (ds, groups) \<Rightarrow>
                  (case export_loop self value_dim reduce_fn view_dims vm
                          \<lparr>st_indices = indices, st_view_dimensions = view_dims, st_stack = []\<rparr>
                          groups of
                     Inl e \<Rightarrow> Inl e
                   | Inr st \<Rightarrow>
                       if stack_dims \<noteq> [] then Inr (StackOf stype ds (st_stack st))
                       else (case map_of (st_stack st) None of
                               None \<Rightarrow> Inl KeyError
                             | Some v \<Rightarrow> Inr (SingleView v)))))"

definition DFrameView_table ::
  "frame DFrameView \<Rightarrow> string \<Rightarrow> pyval list \<Rightarrow> reducer option \<Rightarrow> string list \<Rightarrow>
     string list \<Rightarrow> error + export_result" where
  "DFrameView_table self value_dim indices reduce_fn dims stack_dims =
     DFrameView_export_dataview self value_dim indices reduce_fn dims stack_dims
       create_table TableStack"

text \<open>
  \<open>heatmap\<close>: \<open>index\<close> is \<open>None\<close> or a row label. The guard is the chained comparison
  \<open>1 > len(dims) > 2\<close>, that is \<open>1 > len(dims) and len(dims) > 2\<close>.
\<close>

definition heatmap_indices :: "pyval option \<Rightarrow> pyval list" where
  "heatmap_indices index =
     (case index of None \<Rightarrow> [] | Some i \<Rightarrow> (if truthy i then [i] else []))"

definition DFrameView_heatmap ::
  "frame DFrameView \<Rightarrow> string \<Rightarrow> string list \<Rightarrow> pyval option \<Rightarrow> reducer option \<Rightarrow>
     string list \<Rightarrow> error + export_result" where
  "DFrameView_heatmap self value_dim dims index reduce_fn stack_dims =
     (let indices = heatmap_indices index in
      if 1 > length dims \<and> length dims > 2
      then Inl (Exception ''HeatMap supports either one or two dimensions'')
      else DFrameView_export_dataview self value_dim indices reduce_fn dims stack_dims
             create_heatmap DataStack)"

section \<open>Objects and identity\<close>

text \<open>
  Frames and wrappers are objects: the store maps addresses to them, a wrapper holds the
  address of its frame, and a new object takes the next unused address. Two references
  are the same object exactly when they are the same address.
\<close>

type_synonym addr = nat

record heap =
  frames :: "addr \<Rightarrow> frame option"
  views :: "addr \<Rightarrow> addr DFrameView option"
  next_addr :: addr

definition heap_ok :: "heap \<Rightarrow> bool" where
  "heap_ok h = (\<forall>a. next_addr h \<le> a \<longrightarrow> frames h a = None \<and> views h a = None)"

definition alloc_frame :: "heap \<Rightarrow> frame \<Rightarrow> heap \<times> addr" where
  "alloc_frame h f =
     (h\<lparr>frames := (frames h)(next_addr h \<mapsto> f), next_addr := Suc (next_addr h)\<rparr>, next_addr h)"

definition alloc_view :: "heap \<Rightarrow> addr DFrameView \<Rightarrow> heap \<times> addr" where
  "alloc_view h w =
     (h\<lparr>views := (views h)(next_addr h \<mapsto> w), next_addr := Suc (next_addr h)\<rparr>, next_addr h)"

text \<open>An in-place change of the frame object at an address.\<close>

definition mutate_frame :: "heap \<Rightarrow> addr \<Rightarrow> (frame \<Rightarrow> frame) \<Rightarrow> heap" where
  "mutate_frame h a g = h\<lparr>frames := (frames h)(a := map_option g (frames h a))\<rparr>"

text \<open>The argument of the constructor can be any object; only a frame passes the check.\<close>

datatype pyobj = FrameRef addr | ViewRef addr | Value pyval | NoneObj

fun is_DataFrame :: "pyobj \<Rightarrow> bool" where
  "is_DataFrame (FrameRef a) = True"
| "is_DataFrame _ = False"

text \<open>
  \<open>View.__init__\<close> and \<open>View.clone\<close> are not part of this module. Modelled from the spec:
  the constructor of the base class stores the data and the parameters in the new
  object; \<open>clone\<close> makes a new wrapper over the given frame with the parameters of the
  wrapper it is called on.
\<close>

definition View_init :: "heap \<Rightarrow> addr \<Rightarrow> dimension list \<Rightarrow> string \<Rightarrow> heap \<times> addr" where
  "View_init h d dims lbl = alloc_view h \<lparr>data = d, dimensions = dims, label = lbl\<rparr>"

definition clone :: "heap \<Rightarrow> addr \<Rightarrow> addr \<Rightarrow> error + heap \<times> addr" where
  "clone h self df =
     (case views h self of
        None \<Rightarrow> Inl Dangling
      | Some w \<Rightarrow> Inr (alloc_view h (w\<lparr>data := df\<rparr>)))"

definition DFrameView_init ::
  "heap \<Rightarrow> pyobj \<Rightarrow> dimension list \<Rightarrow> string \<Rightarrow> error + heap \<times> addr" where
  "DFrameView_init h d dims lbl =
     (if \<not> is_DataFrame d
      then Inl (Exception ''DataFrame View type requires Pandas dataframe as data.'')
      else (case d of FrameRef a \<Rightarrow> Inr (View_init h a dims lbl) | _ \<Rightarrow> Inl Dangling))"

text \<open>The wrapper at an address with its frame read out, as the export routine sees it.\<close>

definition snapshot :: "heap \<Rightarrow> addr \<Rightarrow> error + frame DFrameView" where
  "snapshot h self =
     (case views h self of
        None \<Rightarrow> Inl Dangling
      | Some w \<Rightarrow>
          (case frames h (data w) of
             None \<Rightarrow> Inl Dangling
           | Some f \<Rightarrow> Inr \<lparr>data = f, dimensions = dimensions w, label = label w\<rparr>))"

section \<open>Selection and indexing\<close>

text \<open>
  A criterion is a scalar or a slice with both bounds. Ordering an integer against a
  string raises \<open>TypeError\<close>; equality between them is just false.
\<close>

datatype criterion = Exact pyval | Slice pyval pyval

fun py_lt :: "pyval \<Rightarrow> pyval \<Rightarrow> error + bool" where
  "py_lt (PInt a) (PInt b) = Inr (a < b)"
| "py_lt (PStr a) (PStr b) = Inr (str_less a b)"
| "py_lt (PInt a) (PStr b) = Inl TypeError"
| "py_lt (PStr a) (PInt b) = Inl TypeError"

text \<open>
  \<open>df[dim]\<close>: the column as a list of cells, \<open>KeyError\<close> when the frame has no such
  column. A duplicated label gives a frame instead of a column, which the boolean
  selection does not accept.
\<close>

definition frame_column :: "frame \<Rightarrow> string \<Rightarrow> error + pyval list" where
  "frame_column f d =
     (case pos (columns f) d of
        None \<Rightarrow> Inl KeyError
      | Some i \<Rightarrow>
          if count_list (columns f) d = 1 then Inr (map (\<lambda>r. snd r ! i) (rows f))
          else Inl ValueError)"

text \<open>\<open>df[mask]\<close>: a new frame with the rows whose mask entry is true.\<close>

definition frame_mask :: "frame \<Rightarrow> bool list \<Rightarrow> frame" where
  "frame_mask f m = f\<lparr>rows := map fst (filter snd (zip (rows f) m))\<rparr>"

definition select_step :: "frame \<Rightarrow> string \<Rightarrow> criterion \<Rightarrow> error + frame" where
  "select_step df dim k =
     (case k of
        Slice start stop \<Rightarrow>
          (case frame_column df dim of
             Inl e \<Rightarrow> Inl e
           | Inr col \<Rightarrow>
               (case emap (py_lt start) col of
                  Inl e \<Rightarrow> Inl e
                | Inr gt_start \<Rightarrow>
                    (case emap (\<lambda>c. py_lt c stop) col of
                       Inl e \<Rightarrow> Inl e
                     | Inr lt_stop \<Rightarrow> Inr (frame_mask df (map2 (\<and>) gt_start lt_stop)))))
      | Exact v \<Rightarrow>
          (case frame_column df dim of
             Inl e \<Rightarrow> Inl e
           | Inr col \<Rightarrow> Inr (frame_mask df (map (\<lambda>c. c = v) col))))"

fun select_loop :: "frame \<Rightarrow> (string \<times> criterion) list \<Rightarrow> error + frame" where
  "select_loop df [] = Inr df"
| "select_loop df ((dim, k) # rest) =
     (case select_step df dim k of Inl e \<Rightarrow> Inl e | Inr df' \<Rightarrow> select_loop df' rest)"

text \<open>
  \<open>select\<close>: the criteria are the keyword dictionary, iterated in its order. With no
  criterion the clone is made over the wrapper's own frame object; otherwise over the
  frame the last filter produced, a new object.
\<close>

definition DFrameView_select ::
  "heap \<Rightarrow> addr \<Rightarrow> (string \<times> criterion) list \<Rightarrow> error + heap \<times> addr" where
  "DFrameView_select h self select =
     (case views h self of
        None \<Rightarrow> Inl Dangling
      | Some w \<Rightarrow>
          (case frames h (data w) of
             None \<Rightarrow> Inl Dangling
           | Some f \<Rightarrow>
               (case select_loop f select of
                  Inl e \<Rightarrow> Inl e
                | Inr df \<Rightarrow>
                    if select = [] then clone h self (data w)
                    else (let ha = alloc_frame h df in clone (fst ha) self (snd ha)))))"

text \<open>\<open>dict(pairs)\<close>: a later pair with the same key replaces the value of the earlier one.\<close>

definition py_dict :: "('k \<times> 'v) list \<Rightarrow> ('k \<times> 'v) list" where
  "py_dict kvs = foldl (\<lambda>d kv. dict_set d (fst kv) (snd kv)) [] kvs"

text \<open>\<open>__getitem__\<close>: the key is a tuple of criteria; \<open>key is ()\<close> holds for the empty tuple.\<close>

definition DFrameView_getitem ::
  "heap \<Rightarrow> addr \<Rightarrow> criterion list \<Rightarrow> error + heap \<times> addr" where
  "DFrameView_getitem h self key =
     (if key = [] then Inr (h, self)
      else
        (case views h self of
           None \<Rightarrow> Inl Dangling
         | Some w \<Rightarrow>
             if length key = ndims w
             then DFrameView_select h self (py_dict (zip (dimension_labels w) key))
             else Inl KeyError))"

text \<open>\<open>dframe\<close>: \<open>self.data.copy()\<close> is a new frame object with the same content.\<close>

definition DFrameView_dframe :: "heap \<Rightarrow> addr \<Rightarrow> error + heap \<times> addr" where
  "DFrameView_dframe h self =
     (case views h self of
        None \<Rightarrow> Inl Dangling
      | Some w \<Rightarrow>
          (case frames h (data w) of
             None \<Rightarrow> Inl Dangling
           | Some f \<Rightarrow> Inr (alloc_frame h f)))"

section \<open>The plot adapter\<close>

datatype plot_type = plot | boxplot | hist | scatter_matrix

fun plot_type_name :: "plot_type \<Rightarrow> string" where
  "plot_type_name plot = ''plot''"
| "plot_type_name boxplot = ''boxplot''"
| "plot_type_name hist = ''hist''"
| "plot_type_name scatter_matrix = ''scatter_matrix''"

definition plot_options :: "(string \<times> string list) list" where
  "plot_options =
     [(''plot'', [''kind'', ''stacked'', ''xerr'', ''yerr'', ''share_x'', ''share_y'',
                  ''table'', ''style'', ''secondary_y'', ''legend'', ''logx'', ''logy'',
                  ''position'', ''colormap'', ''mark_right'']),
      (''hist'', [''column'', ''by'', ''grid'', ''xlabelsize'', ''xrot'', ''ylabelsize'',
                  ''yrot'', ''sharex'', ''sharey'', ''hist'', ''layout'']),
      (''boxplot'', [''column'', ''by'', ''fontsize'', ''layout'', ''grid'', ''rot'']),
      (''scatter_matrix'', [''alpha'', ''grid'', ''diagonal'', ''marker'', ''range_padding'',
                            ''hist_kwds'', ''density_kwds'']),
      (''autocorrelation'', [''kwds''])]"

definition plot_options_get :: "string \<Rightarrow> error + string list" where
  "plot_options_get name =
     (case map_of plot_options name of None \<Rightarrow> Inl KeyError | Some opts \<Rightarrow> Inr opts)"

datatype optval = OptStr string | OptInt int | OptBool bool | OptTuple "int list"

type_synonym style_dict = "(string \<times> optval) list"

text \<open>
  The adapter's state that the render call reads and assigns: the selected plot type,
  the figure size, the z-order, the style set, and the warnings logged so far.
\<close>

record DFramePlot =
  plot_type :: plot_type
  fig_size :: optval
  zorder :: int
  style :: style_dict
  warnings :: "string list"

definition warning_text :: "string \<Rightarrow> string \<Rightarrow> string" where
  "warning_text k name =
     ''Plot option '' @ k @ '' does not apply to '' @ name @ '' plot type.''"

text \<open>
  The style set is what the options registry of another module returns for the view.
  Modelled from the spec: it is a dictionary from option names to values.

  \<open>styles = self.style.keys()\<close> is a view of that dictionary, and the loop iterates over
  it while the body pops from the dictionary. The iterator remembers the size \<open>used\<close>
  the dictionary had when the loop started; each step, also the one that would end the
  loop, first compares it with the present size and raises \<open>RuntimeError\<close> when they
  differ. As long as they agree the dictionary is the one the loop started with, so the
  names come from it in its order.
\<close>

fun style_loop ::
  "string \<Rightarrow> nat \<Rightarrow> string list \<Rightarrow> style_dict \<times> string list \<Rightarrow>
     error + style_dict \<times> string list" where
  "style_loop name used [] sw =
     (if length (fst sw) \<noteq> used then Inl RuntimeError else Inr sw)"
| "style_loop name used (k # ks) sw =
     (if length (fst sw) \<noteq> used then Inl RuntimeError
      else
        (case plot_options_get name of
           Inl e \<Rightarrow> Inl e
         | Inr allowed \<Rightarrow>
             if k \<notin> set allowed then
               (case dict_pop (fst sw) k of
                  Inl e \<Rightarrow> Inl e
                | Inr st \<Rightarrow> style_loop name used ks (st, snd sw @ [warning_text k name]))
             else style_loop name used ks sw))"

text \<open>
  \<open>__call__\<close> up to the point where the host library draws: \<open>composed\<close> is
  \<open>axis is not None\<close>, \<open>dfview\<close> the last view of the stack, \<open>looked_up\<close> the style set the
  registry returns for it at the cyclic index. The title and the axis are set up by the
  base class of the adapter and do not touch the style set; they are left out. The
  result is the adapter as \<open>_update_plot\<close> receives it.
\<close>

definition DFramePlot_call ::
  "DFramePlot \<Rightarrow> 'd DFrameView \<Rightarrow> bool \<Rightarrow> style_dict \<Rightarrow> error + DFramePlot" where
  "DFramePlot_call self dfview composed looked_up =
     (if composed \<and> plot_type self = scatter_matrix
      then Inl (Exception ''Scatter Matrix plots can't be composed.'')
      else if composed \<and> length (dimensions dfview) > 1 \<and> plot_type self \<in> set [hist]
      then Inl (Exception (''Multiple '' @ plot_type_name (plot_type self) @
                            '' plots cannot be composed.''))
      else
        (case style_loop (plot_type_name (plot_type self)) (length looked_up)
                (map fst looked_up) (looked_up, warnings self) of
           Inl e \<Rightarrow> Inl e
         | Inr sw \<Rightarrow>
             (let st1 = dict_set (fst sw) ''figsize'' (fig_size self);
                  st2 = (if plot_type self = boxplot
                         then dict_set st1 ''return_type'' (OptStr ''axes'') else st1)
              in Inr (self\<lparr>style := st2, warnings := snd sw\<rparr>))))"

section \<open>Example data\<close>

text \<open>
  A frame with the default row labels 0, 1, 2: two rows of group \<open>a\<close> and one of group
  \<open>b\<close>, all with the same value in column \<open>x\<close>.
\<close>

definition demo_frame :: frame where
  "demo_frame =
     \<lparr>columns = [''g'', ''x'', ''v''],
      dtypes = [Object, Int64, Int64],
      rows = [(PInt 0, [PStr ''a'', PInt 1, PInt 10]),
              (PInt 1, [PStr ''a'', PInt 1, PInt 20]),
              (PInt 2, [PStr ''b'', PInt 1, PInt 30])]\<rparr>"

definition demo_dims :: "dimension list" where
  "demo_dims = [Dimension ''g'', Dimension ''x'', Dimension ''v'']"

definition demo_view :: "frame DFrameView" where
  "demo_view = \<lparr>data = demo_frame, dimensions = demo_dims, label = ''demo''\<rparr>"

text \<open>The frame the export works on when the demo view is exported with value \<open>v\<close> over \<open>x\<close>.\<close>

definition demo_working :: frame where
  "demo_working =
     \<lparr>columns = [''v'', ''x''],
      dtypes = [Int64, Int64],
      rows = [(PInt 0, [PInt 10, PInt 1]),
              (PInt 1, [PInt 20, PInt 1]),
              (PInt 2, [PInt 30, PInt 1])]\<rparr>"

text \<open>
  Two frames joined one under the other, each keeping its own row labels: group \<open>a\<close>
  has the labels 0 and 1, group \<open>b\<close> the labels 0, 1 and 2.
\<close>

definition joined_frame :: frame where
  "joined_frame =
     \<lparr>columns = [''g'', ''x'', ''v''],
      dtypes = [Object, Int64, Int64],
      rows = [(PInt 0, [PStr ''a'', PInt 1, PInt 10]),
              (PInt 1, [PStr ''a'', PInt 2, PInt 20]),
              (PInt 0, [PStr ''b'', PInt 1, PInt 30]),
              (PInt 1, [PStr ''b'', PInt 2, PInt 40]),
              (PInt 2, [PStr ''b'', PInt 3, PInt 50])]\<rparr>"

definition joined_view :: "frame DFrameView" where
  "joined_view = \<lparr>data = joined_frame, dimensions = demo_dims, label = ''joined''\<rparr>"



text \<open>A store with the demo frame at address 0 and a wrapper over it at address 1.\<close>

definition demo_heap :: heap where
  "demo_heap =
     \<lparr>frames = [0 \<mapsto> demo_frame],
      views = [1 \<mapsto> \<lparr>data = 0, dimensions = demo_dims, label = ''demo''\<rparr>],
      next_addr = 2\<rparr>"

text \<open>A box plot adapter, and a looked-up style set with one option box plots do not take.\<close>

definition demo_plot :: DFramePlot where
  "demo_plot = \<lparr>plot_type = boxplot, fig_size = OptTuple [4, 4], zorder = 0, style = [],
                 warnings = []\<rparr>"

definition demo_style :: style_dict where
  "demo_style = [(''grid'', OptBool True), (''color'', OptStr ''red'')]"

section \<open>Frames stay rectangular\<close>

text \<open>
  The position of a column lies within every row of a rectangular frame, and the frame
  operations of the model return rectangular frames, with groups that have rows.
\<close>

lemma pos_in_range: "pos xs x = Some i \<Longrightarrow> i < length xs"
  by (induction xs arbitrary: i) (auto split: if_splits)

lemma pos_present: "x \<in> set xs \<Longrightarrow> \<exists>i. pos xs x = Some i"
  by (induction xs) auto

lemma rectangular_cell_in_range:
  "rectangular f \<Longrightarrow> r \<in> set (rows f) \<Longrightarrow> pos (columns f) d = Some i \<Longrightarrow> i < length (snd r)"
  using pos_in_range [of "columns f" d i] by (simp add: rectangular_def list_all_iff)

lemma rectangular_frame_filter: "rectangular (frame_filter f items)"
  by (simp add: rectangular_def frame_filter_def Let_def list_all_iff)

lemma mask_subset: "set (map fst (filter snd (zip xs m))) \<subseteq> set xs"
proof (induction xs arbitrary: m)
  case Nil
  then show ?case by simp
next
  case (Cons x xs)
  show ?case
  proof (cases m)
    case Nil
    then show ?thesis by simp
  next
    case (Cons b bs)
    then show ?thesis using Cons.IH [of bs] by auto
  qed
qed

lemma rectangular_frame_mask:
  assumes "rectangular f"
  shows "rectangular (frame_mask f m)"
proof -
  have all: "\<forall>r\<in>set (rows f). length (snd r) = length (columns f)"
    and len: "length (dtypes f) = length (columns f)"
    using assms by (simp_all add: rectangular_def list_all_iff)
  have "\<forall>r\<in>set (map fst (filter snd (zip (rows f) m))). length (snd r) = length (columns f)"
    using all mask_subset [of "rows f" m] by blast
  moreover have "rows (frame_mask f m) = map fst (filter snd (zip (rows f) m))"
    and "columns (frame_mask f m) = columns f"
    and "dtypes (frame_mask f m) = dtypes f"
    by (simp_all add: frame_mask_def)
  ultimately show ?thesis
    using len by (simp only: rectangular_def list_all_iff simp_thms)
qed

lemma insert_key_set: "set (insert_key k ks) = insert k (set ks)"
  by (induction ks) auto

lemma sort_keys_set: "set (sort_keys ks) = set ks"
  by (induction ks) (simp_all add: sort_keys_def insert_key_set)

lemma groupby_groups:
  assumes "groupby f dims = Inr gs" and "(k, g) \<in> set gs"
  shows "columns g = columns f \<and> rows g \<noteq> [] \<and> set (rows g) \<subseteq> set (rows f) \<and>
         (rectangular f \<longrightarrow> rectangular g)"
proof -
  let ?idxs = "concat (map (\<lambda>d. case pos (columns f) d of None \<Rightarrow> [] | Some i \<Rightarrow> [i]) dims)"
  have gs: "gs = map (\<lambda>k. (k, f\<lparr>rows := filter (\<lambda>r. row_key ?idxs r = k) (rows f)\<rparr>))
                   (sort_keys (remdups (map (row_key ?idxs) (rows f))))"
    using assms(1) by (simp add: groupby_def Let_def split: if_splits)
  have k: "k \<in> set (map (row_key ?idxs) (rows f))"
    and g: "g = f\<lparr>rows := filter (\<lambda>r. row_key ?idxs r = k) (rows f)\<rparr>"
    using assms(2) unfolding gs by (auto simp add: sort_keys_set)
  have ne: "filter (\<lambda>r. row_key ?idxs r = k) (rows f) \<noteq> []"
    using k by (auto simp add: filter_empty_conv)
  show ?thesis
    using g ne by (auto simp add: rectangular_def list_all_iff)
qed

lemma demo_frames_rectangular: "rectangular demo_frame \<and> rectangular joined_frame"
  by (simp add: rectangular_def demo_frame_def joined_frame_def)

section \<open>The arity check of heatmap\<close>

text \<open>
  The guard of \<open>heatmap\<close> asks for a length that is below 1 and above 2 at once, so it
  holds for no list: every call goes on to the export routine.
\<close>

lemma heatmap_guard_never_fires:
  "DFrameView_heatmap self value_dim dims index reduce_fn stack_dims =
     DFrameView_export_dataview self value_dim (heatmap_indices index) reduce_fn dims stack_dims
       create_heatmap DataStack"
  by (auto simp add: DFrameView_heatmap_def)

text \<open>
  C1: a call of \<open>heatmap\<close> with three dimensions (or none) is to fail with a validation
  error before any export. On the demo frame the call with the three dimensions
  \<open>g\<close>, \<open>x\<close>, \<open>v\<close> does not fail: it runs the export and returns a heat map whose keys
  have four components.
\<close>

theorem heatmap_three_dims_exported:
  "DFrameView_heatmap demo_view ''v'' [''g'', ''x'', ''v''] None None [] =
     Inr (SingleView
       (HeatMap
         [(KTuple [PInt 0, PStr ''a'', PInt 1, PInt 10], Scalar (PInt 10)),
          (KTuple [PInt 1, PStr ''a'', PInt 1, PInt 20], Scalar (PInt 20)),
          (KTuple [PInt 2, PStr ''b'', PInt 1, PInt 30], Scalar (PInt 30))]
         ''demo''
         [DimLabel ''Index'', DimObj (Dimension ''g''), DimObj (Dimension ''x''),
          DimObj (Dimension ''v'')]
         (Dimension ''v'')))"
  by code_simp

text \<open>With no dimension at all the call is exported as well.\<close>

lemma heatmap_no_dims_exported:
  "DFrameView_heatmap demo_view ''v'' [] None None [] =
     Inr (SingleView
       (HeatMap
         [(KScalar (PInt 0), Scalar (PInt 10)),
          (KScalar (PInt 1), Scalar (PInt 20)),
          (KScalar (PInt 2), Scalar (PInt 30))]
         ''demo'' [DimLabel ''Index''] (Dimension ''v'')))"
  by code_simp

text \<open>
  C10: in \<open>heatmap\<close> the row label 0 given as \<open>index\<close> is treated like no index: the
  index list handed to the export routine is empty, so the call equals the call without
  an index.
\<close>

theorem heatmap_index_zero_is_no_index:
  "heatmap_indices (Some (PInt 0)) = [] \<and>
   DFrameView_heatmap self value_dim dims (Some (PInt 0)) reduce_fn stack_dims =
     DFrameView_export_dataview self value_dim [] reduce_fn dims stack_dims
       create_heatmap DataStack \<and>
   DFrameView_heatmap self value_dim dims (Some (PInt 0)) reduce_fn stack_dims =
     DFrameView_heatmap self value_dim dims None reduce_fn stack_dims"
  by (auto simp add: DFrameView_heatmap_def heatmap_indices_def)

text \<open>On the demo frame, \<open>index=0\<close> selects all three rows, \<open>index=1\<close> only row 1.\<close>

lemma heatmap_index_zero_demo:
  "DFrameView_heatmap demo_view ''v'' [''x''] (Some (PInt 0)) None [] =
     Inr (SingleView
       (HeatMap
         [(KTuple [PInt 0, PInt 1], Scalar (PInt 10)),
          (KTuple [PInt 1, PInt 1], Scalar (PInt 20)),
          (KTuple [PInt 2, PInt 1], Scalar (PInt 30))]
         ''demo'' [DimLabel ''Index'', DimObj (Dimension ''x'')] (Dimension ''v'')))"
  by code_simp

lemma heatmap_index_one_demo:
  "DFrameView_heatmap demo_view ''v'' [''x''] (Some (PInt 1)) None [] =
     Inr (SingleView
       (HeatMap [(KScalar (PInt 1), Scalar (PInt 20))]
         ''demo'' [DimObj (Dimension ''x'')] (Dimension ''v'')))"
  by code_simp

section \<open>The index list across stack groups\<close>

text \<open>
  C2: with no reduction function, no indices and stack dimensions, each stack group is
  to be exported from its own row identifiers. The loop body assigns the row
  identifiers of the first group to \<open>indices\<close>, and the later groups find \<open>indices\<close>
  non-empty and use them. On the demo frame, stacked over \<open>g\<close>, group \<open>b\<close> is asked for
  the rows 0 and 1 of group \<open>a\<close> and the export raises \<open>KeyError\<close>.
\<close>

theorem table_stack_uses_first_group_indices:
  "DFrameView_table demo_view ''v'' [] None [''x''] [''g''] = Inl KeyError"
  by code_simp

text \<open>
  Where the later group happens to have rows under the labels of the first, the export
  returns, and the later group's view is built from those labels only: row 2 of group
  \<open>b\<close> is missing from the result.
\<close>

lemma table_stack_drops_rows:
  "DFrameView_table joined_view ''v'' [] None [''x''] [''g''] =
     Inr (StackOf TableStack [Dimension ''g'']
       [(Some [PStr ''a''],
         Table [(KTuple [PInt 0, PInt 1], Scalar (PInt 10)),
                (KTuple [PInt 1, PInt 2], Scalar (PInt 20))]
           ''joined'' (Some (''v'', [DimLabel ''Index'', DimObj (Dimension ''x'')]))),
        (Some [PStr ''b''],
         Table [(KTuple [PInt 0, PInt 1], Scalar (PInt 30)),
                (KTuple [PInt 1, PInt 2], Scalar (PInt 40))]
           ''joined'' (Some (''v'', [DimLabel ''Index'', DimObj (Dimension ''x'')])))])"
  by code_simp

section \<open>Construction, identity and copies\<close>

text \<open>
  C8: constructing the wrapper from anything but a frame fails, and the error is to be
  of class \<open>TypeError\<close>. The constructor raises a plain \<open>Exception\<close>, which is not an
  instance of \<open>TypeError\<close>.
\<close>

theorem init_raises_plain_exception:
  "DFrameView_init demo_heap NoneObj demo_dims ''demo'' =
     Inl (Exception ''DataFrame View type requires Pandas dataframe as data.'') \<and>
   \<not> is_TypeError (Exception ''DataFrame View type requires Pandas dataframe as data.'')"
  by (simp add: DFrameView_init_def)

text \<open>
  C8, as amended: for every argument that is not a frame the constructor fails with the
  plain \<open>Exception\<close> carrying the message below, and builds nothing.
\<close>

theorem init_rejects_non_frame:
  "\<not> is_DataFrame d \<Longrightarrow>
   DFrameView_init h d dims lbl =
     Inl (Exception ''DataFrame View type requires Pandas dataframe as data.'')"
  by (simp add: DFrameView_init_def)

theorem init_rejects_non_frame_witness:
  "\<not> is_DataFrame NoneObj \<and>
   DFrameView_init demo_heap NoneObj demo_dims ''demo'' =
     Inl (Exception ''DataFrame View type requires Pandas dataframe as data.'')"
  using init_rejects_non_frame [of NoneObj demo_heap demo_dims "''demo''"] by simp

text \<open>
  C6: indexing a wrapper with the empty tuple returns the wrapper itself: the result is
  the address the call was made on, and the store is unchanged (nothing was cloned).
\<close>

theorem getitem_empty_key_is_self: "DFrameView_getitem h self [] = Inr (h, self)"
  by (simp add: DFrameView_getitem_def)

lemma demo_heap_ok: "heap_ok demo_heap"
  by (simp add: heap_ok_def demo_heap_def)

lemma heap_ok_frame_below: "heap_ok h \<Longrightarrow> frames h a = Some f \<Longrightarrow> a < next_addr h"
  unfolding heap_ok_def by (metis not_le_imp_less option.distinct(1))


text \<open>
  C7: \<open>dframe\<close> returns an independent copy. In a store whose unused addresses are empty,
  for a wrapper \<open>w\<close> at \<open>self\<close> over the frame \<open>f\<close>: the call returns a new frame object
  with the content \<open>f\<close>, at an address other than that of the wrapper's frame, and
  whatever change \<open>g\<close> is made to the returned object in place, the wrapper and the
  content of its frame stay as they were.
\<close>

theorem dframe_independent_copy:
  assumes ok: "heap_ok h"
    and w: "views h self = Some w"
    and f: "frames h (data w) = Some f"
  shows "DFrameView_dframe h self = Inr (alloc_frame h f) \<and>
         snd (alloc_frame h f) \<noteq> data w \<and>
         frames (fst (alloc_frame h f)) (snd (alloc_frame h f)) = Some f \<and>
         snapshot (fst (alloc_frame h f)) self = snapshot h self \<and>
         (\<forall>g. frames (mutate_frame (fst (alloc_frame h f)) (snd (alloc_frame h f)) g)
                 (snd (alloc_frame h f)) = Some (g f) \<and>
              frames (mutate_frame (fst (alloc_frame h f)) (snd (alloc_frame h f)) g)
                 (data w) = Some f \<and>
              snapshot (mutate_frame (fst (alloc_frame h f)) (snd (alloc_frame h f)) g) self =
                snapshot h self)"
proof -
  have lt: "data w < next_addr h"
    using ok f by (rule heap_ok_frame_below)
  show ?thesis
    using w f lt
    by (simp add: DFrameView_dframe_def alloc_frame_def mutate_frame_def snapshot_def)
qed

theorem dframe_independent_copy_witness:
  "heap_ok demo_heap \<and>
   DFrameView_dframe demo_heap 1 = Inr (alloc_frame demo_heap demo_frame) \<and>
   snd (alloc_frame demo_heap demo_frame) = 2 \<and>
   frames (mutate_frame (fst (alloc_frame demo_heap demo_frame)) 2 (\<lambda>f. f\<lparr>rows := []\<rparr>)) 2
     = Some (demo_frame\<lparr>rows := []\<rparr>) \<and>
   frames (mutate_frame (fst (alloc_frame demo_heap demo_frame)) 2 (\<lambda>f. f\<lparr>rows := []\<rparr>)) 0
     = Some demo_frame"
proof -
  have w: "views demo_heap 1 = Some \<lparr>data = 0, dimensions = demo_dims, label = ''demo''\<rparr>"
    by (simp add: demo_heap_def)
  have f: "frames demo_heap (data \<lparr>data = 0::nat, dimensions = demo_dims, label = ''demo''\<rparr>)
             = Some demo_frame"
    by (simp add: demo_heap_def)
  show ?thesis
    using dframe_independent_copy [OF demo_heap_ok w f] demo_heap_ok
    by (simp add: alloc_frame_def mutate_frame_def demo_heap_def)
qed

section \<open>Selection\<close>











section \<open>Style options at render time\<close>

lemma plot_options_present:
  "\<exists>allowed. plot_options_get (plot_type_name pt) = Inr allowed"
  by (cases pt) (simp_all add: plot_options_get_def plot_options_def)

text \<open>When every name of the style set is in the allow-list the loop changes nothing.\<close>

lemma style_loop_all_allowed:
  assumes opts: "plot_options_get name = Inr allowed"
  shows "length st = used \<Longrightarrow> set ks \<subseteq> set allowed \<Longrightarrow>
         style_loop name used ks (st, ws) = Inr (st, ws)"
  using opts by (induction ks) simp_all

text \<open>
  The first name outside the allow-list is popped after its warning, and the next step
  of the iteration finds the dictionary smaller than it was.
\<close>

lemma style_loop_after_pop:
  "length st \<noteq> used \<Longrightarrow> style_loop name used ks (st, ws) = Inl RuntimeError"
  by (cases ks) simp_all

lemma style_loop_unknown_raises:
  assumes opts: "plot_options_get name = Inr allowed"
    and len: "length st = used"
    and known: "set ks1 \<subseteq> set allowed"
    and unknown: "k \<notin> set allowed"
    and present: "k \<in> set (map fst st)"
  shows "style_loop name used (ks1 @ k # ks2) (st, ws) = Inl RuntimeError"
  using known
proof (induction ks1)
  case Nil
  have "length (filter (\<lambda>kv. fst kv \<noteq> k) st) < length st"
    using present by (auto intro: length_filter_less)
  then have "length (filter (\<lambda>kv. fst kv \<noteq> k) st) \<noteq> used"
    using len by simp
  then have "style_loop name used ks2
               (filter (\<lambda>kv. fst kv \<noteq> k) st, ws @ [warning_text k name]) = Inl RuntimeError"
    by (rule style_loop_after_pop)
  then show ?case
    using opts len unknown present by (simp add: dict_pop_def)
next
  case (Cons a ks1)
  then show ?case
    using opts len by simp
qed

text \<open>
  For a render call that passes the composition checks: a style set with a name outside
  the allow-list of the plot type makes the call raise \<open>RuntimeError\<close>; a style set
  with allowed names only is kept whole and no warning is logged.
\<close>

lemma unknown_style_option_is_fatal:
  assumes checks: "\<not> composed"
    and opts: "plot_options_get (plot_type_name (plot_type self)) = Inr allowed"
    and unknown: "\<exists>k\<in>set (map fst looked_up). k \<notin> set allowed"
  shows "DFramePlot_call self dfview composed looked_up = Inl RuntimeError"
proof -
  have "\<exists>ks1 k ks2. map fst looked_up = ks1 @ k # ks2 \<and> set ks1 \<subseteq> set allowed \<and>
          k \<notin> set allowed"
    using unknown
  proof (induction "map fst looked_up" arbitrary: looked_up)
    case Nil
    then show ?case by simp
  next
    case (Cons a ks)
    obtain kv rest where lu: "looked_up = kv # rest" "fst kv = a" "map fst rest = ks"
      using Cons.hyps(2) by (cases looked_up) auto
    show ?case
    proof (cases "a \<in> set allowed")
      case False
      have "map fst looked_up = [] @ a # ks \<and> set [] \<subseteq> set allowed \<and> a \<notin> set allowed"
        using False Cons.hyps(2) by simp
      then show ?thesis by blast
    next
      case True
      have "\<exists>k\<in>set (map fst rest). k \<notin> set allowed"
        using Cons.prems True lu by auto
      then obtain ks1 k ks2 where
        "map fst rest = ks1 @ k # ks2" "set ks1 \<subseteq> set allowed" "k \<notin> set allowed"
        using Cons.hyps(1) [of rest] lu(3) by blast
      then have "map fst looked_up = (a # ks1) @ k # ks2 \<and> set (a # ks1) \<subseteq> set allowed \<and>
                 k \<notin> set allowed"
        using True lu by simp
      then show ?thesis by blast
    qed
  qed
  then obtain ks1 k ks2 where
    split: "map fst looked_up = ks1 @ k # ks2" and known: "set ks1 \<subseteq> set allowed"
    and bad: "k \<notin> set allowed"
    by blast
  have present: "k \<in> set (map fst looked_up)"
    using split by simp
  have "style_loop (plot_type_name (plot_type self)) (length looked_up) (ks1 @ k # ks2)
          (looked_up, warnings self) = Inl RuntimeError"
    by (rule style_loop_unknown_raises [OF opts refl known bad present])
  then show ?thesis
    using checks split by (simp add: DFramePlot_call_def)
qed

lemma allowed_style_options_kept:
  assumes checks: "\<not> composed"
    and opts: "plot_options_get (plot_type_name (plot_type self)) = Inr allowed"
    and known: "set (map fst looked_up) \<subseteq> set allowed"
  shows "DFramePlot_call self dfview composed looked_up =
           Inr (self\<lparr>style :=
                        (let st1 = dict_set looked_up ''figsize'' (fig_size self)
                         in if plot_type self = boxplot
                            then dict_set st1 ''return_type'' (OptStr ''axes'') else st1),
                     warnings := warnings self\<rparr>)"
  using checks
    style_loop_all_allowed
      [where st = looked_up and ws = "warnings self" and used = "length looked_up",
       OF opts refl known]
  by (simp add: DFramePlot_call_def Let_def)

text \<open>
  C9: an unknown style option is to be dropped after a warning and never to make the
  render call fail. The box plot adapter rendering a view whose style set holds the
  option \<open>color\<close>, which box plots do not take, next to the allowed option \<open>grid\<close>: the
  loop warns about \<open>color\<close> and pops it, and the next step of the iteration over the
  keys raises \<open>RuntimeError\<close>, which ends the call.
\<close>

theorem render_unknown_style_option_raises:
  "DFramePlot_call demo_plot demo_view False demo_style = Inl RuntimeError"
  by (simp add: DFramePlot_call_def demo_plot_def demo_style_def plot_options_get_def
        plot_options_def dict_pop_def)

text \<open>With the allowed option alone the same call returns and keeps it.\<close>

lemma render_allowed_style_option_demo:
  "DFramePlot_call demo_plot demo_view False [(''grid'', OptBool True)] =
     Inr (demo_plot\<lparr>style := [(''grid'', OptBool True), (''figsize'', OptTuple [4, 4]),
                                (''return_type'', OptStr ''axes'')],
                      warnings := []\<rparr>)"
  by (simp add: DFramePlot_call_def demo_plot_def plot_options_get_def plot_options_def)

section \<open>The export as a loop over stack groups\<close>

text \<open>
  Without stack dimensions the export, once the dimensions have passed the check, is
  one run of the loop body on the working frame, started with the index list of the
  call; with stack dimensions the loop body runs once per group of \<open>groupby\<close>.
\<close>

lemma export_without_stack_is_one_group:
  assumes "check_dims (dimension_labels self) (value_dim # view_dims) = Inr ()"
  shows "DFrameView_export_dataview self value_dim indices reduce_fn view_dims [] vm stype =
           (case export_group self value_dim reduce_fn view_dims vm
                   \<lparr>st_indices = indices, st_view_dimensions = view_dims, st_stack = []\<rparr>
                   (None, working_frame self (value_dim # view_dims)) of
              Inl e \<Rightarrow> Inl e
            | Inr st \<Rightarrow>
                (case map_of (st_stack st) None of
                   None \<Rightarrow> Inl KeyError
                 | Some v \<Rightarrow> Inr (SingleView v)))"
  using assms
  by (simp add: DFrameView_export_dataview_def stack_dfs_def Let_def split: sum.splits)

lemma demo_working_frame: "working_frame demo_view [''v'', ''x''] = demo_working"
  by (simp add: working_frame_def demo_view_def demo_dims_def dimension_labels_def
        frame_filter_def demo_frame_def demo_working_def)

section \<open>The reduction branch of the export\<close>















text \<open>The whole export on the demo frame, without and with a stack dimension.\<close>

lemma table_sum_demo:
  "DFrameView_table demo_view ''v'' [PInt 7] (Some py_sum) [''x''] [] =
     Inr (SingleView (Table [(KTuple [PInt 1], Scalar (PInt 60))] ''demo''
                        (Some (''v'', [DimObj (Dimension ''x'')]))))"
  by code_simp

lemma table_sum_stacked_demo:
  "DFrameView_table demo_view ''v'' [] (Some py_sum) [''x''] [''g''] =
     Inr (StackOf TableStack [Dimension ''g'']
            [(Some [PStr ''a''],
              Table [(KTuple [PInt 1], Scalar (PInt 30))] ''demo''
                (Some (''v'', [DimObj (Dimension ''x'')]))),
             (Some [PStr ''b''],
              Table [(KTuple [PInt 1], Scalar (PInt 30))] ''demo''
                (Some (''v'', [DimObj (Dimension ''x'')])))])"
  by code_simp

section \<open>The selection branch of the export\<close>

lemma distinct_labels_differ:
  "distinct (map fst (y # ys)) \<Longrightarrow> z \<in> set ys \<Longrightarrow> fst z \<noteq> fst y"
  by (induction ys) auto

lemma filter_label_single:
  "distinct (map fst xs) \<Longrightarrow> x \<in> set xs \<Longrightarrow> filter (\<lambda>y. fst y = fst x) xs = [x]"
proof (induction xs)
  case Nil
  then show ?case by simp
next
  case (Cons y ys)
  show ?case
  proof (cases "y = x")
    case True
    have "\<forall>z\<in>set ys. fst z \<noteq> fst x"
      using distinct_labels_differ [OF Cons.prems(1)] True by simp
    then have "filter (\<lambda>z. fst z = fst x) ys = []"
      by (simp add: filter_empty_conv)
    then show ?thesis using True by simp
  next
    case False
    have xin: "x \<in> set ys" using Cons.prems(2) False by simp
    have "fst y \<noteq> fst x"
      using distinct_labels_differ [OF Cons.prems(1) xin] by simp
    then show ?thesis
      using Cons.IH xin Cons.prems(1) by simp
  qed
qed

lemma loc_scalar:
  assumes d: "distinct (frame_index g)" and r: "r \<in> set (rows g)"
    and p: "pos (columns g) c = Some i" and one: "count_list (columns g) c = 1"
  shows "loc g (fst r) c = Inr (Scalar (snd r ! i))"
proof -
  have "filter (\<lambda>y. fst y = fst r) (rows g) = [r]"
    using d r by (intro filter_label_single) (simp_all add: frame_index_def)
  then show ?thesis
    using p one by (simp add: loc_def)
qed

lemma emap_loc_scalars:
  assumes d: "distinct (frame_index g)" and r: "r \<in> set (rows g)"
  shows "list_all2 (\<lambda>c i. pos (columns g) c = Some i \<and> count_list (columns g) c = 1) cs ps \<Longrightarrow>
         emap (loc g (fst r)) cs = Inr (map (\<lambda>i. Scalar (snd r ! i)) ps)"
proof (induction cs ps rule: list_all2_induct)
  case Nil
  then show ?case by simp
next
  case (Cons c cs i ps)
  then show ?case
    using loc_scalar [OF d r, of c i] by simp
qed

lemma scalars_map: "scalars (map Scalar vs) = Inr vs"
  by (induction vs) simp_all

text \<open>
  The selection loop run on the labels of rows of the group, with the index component
  added: each row is stored under its label followed by its view-dimension values.
\<close>

lemma select_indices_rows:
  assumes d: "distinct (frame_index g)"
    and vi: "pos (columns g) value_dim = Some vi" "count_list (columns g) value_dim = 1"
    and vis: "list_all2 (\<lambda>c i. pos (columns g) c = Some i \<and> count_list (columns g) c = 1)
                view_dims vis"
  shows "set rs \<subseteq> set (rows g) \<Longrightarrow>
         select_indices g value_dim view_dims False (map fst rs) temp =
           Inr (foldl (\<lambda>t r. dict_set t
                         (if vis = [] then KScalar (fst r)
                          else KTuple (fst r # map (\<lambda>i. snd r ! i) vis))
                         (Scalar (snd r ! vi))) temp rs)"
proof (induction rs arbitrary: temp)
  case Nil
  then show ?case by simp
next
  case (Cons r rs)
  have r: "r \<in> set (rows g)" and sub: "set rs \<subseteq> set (rows g)"
    using Cons.prems by auto
  have comps: "emap (loc g (fst r)) view_dims = Inr (map (\<lambda>i. Scalar (snd r ! i)) vis)"
    by (rule emap_loc_scalars [OF d r vis])
  have v: "loc g (fst r) value_dim = Inr (Scalar (snd r ! vi))"
    by (rule loc_scalar [OF d r vi])
  have sc: "scalars (map (\<lambda>i. Scalar (snd r ! i)) vis) = Inr (map (\<lambda>i. snd r ! i) vis)"
    using scalars_map [of "map (\<lambda>i. snd r ! i) vis"] by (simp add: comp_def)
  show ?case
  proof (cases "vis = []")
    case True
    then show ?thesis
      using comps v Cons.IH [OF sub] by simp
  next
    case False
    then show ?thesis
      using comps v sc Cons.IH [OF sub] by (simp add: Let_def)
  qed
qed


lemma keys_dict_set: "fst ` set (dict_set d k v) = insert k (fst ` set d)"
  by (induction d k v rule: dict_set.induct) auto

lemma distinct_dict_set: "distinct (map fst d) \<Longrightarrow> distinct (map fst (dict_set d k v))"
  by (induction d k v rule: dict_set.induct) (auto simp add: keys_dict_set)

lemma map_of_dict_set: "map_of (dict_set d k v) k' = (if k' = k then Some v else map_of d k')"
  by (induction d k v rule: dict_set.induct) auto

lemma keys_foldl_dict_set:
  "fst ` set (foldl (\<lambda>t r. dict_set t (K r) (V r)) t rs) = fst ` set t \<union> K ` set rs"
proof (induction rs arbitrary: t)
  case Nil
  then show ?case by simp
next
  case (Cons r rs)
  show ?case
    using Cons.IH [of "dict_set t (K r) (V r)"] by (simp add: keys_dict_set)
qed

lemma distinct_foldl_dict_set:
  "distinct (map fst t) \<Longrightarrow> distinct (map fst (foldl (\<lambda>t r. dict_set t (K r) (V r)) t rs))"
proof (induction rs arbitrary: t)
  case Nil
  then show ?case by simp
next
  case (Cons r rs)
  show ?case
    using Cons.IH [OF distinct_dict_set [OF Cons.prems, of "K r" "V r"]] by simp
qed

lemma map_of_foldl_dict_set:
  "\<forall>r'\<in>set rs. K r' = K r \<longrightarrow> V r' = V r \<Longrightarrow>
   r \<in> set rs \<or> map_of t (K r) = Some (V r) \<Longrightarrow>
   map_of (foldl (\<lambda>t r. dict_set t (K r) (V r)) t rs) (K r) = Some (V r)"
proof (induction rs arbitrary: t)
  case Nil
  then show ?case by simp
next
  case (Cons x xs)
  have rest: "\<forall>r'\<in>set xs. K r' = K r \<longrightarrow> V r' = V r"
    using Cons.prems(1) by simp
  have "r \<in> set xs \<or> map_of (dict_set t (K x) (V x)) (K r) = Some (V r)"
    using Cons.prems by (auto simp add: map_of_dict_set)
  then show ?case
    using Cons.IH [OF rest] by simp
qed

lemma rows_for_labels:
  "set inds \<subseteq> fst ` set xs \<Longrightarrow> \<exists>rs. map fst rs = inds \<and> set rs \<subseteq> set xs"
proof (induction inds)
  case Nil
  then show ?case by simp
next
  case (Cons i inds)
  then obtain rs where rs: "map fst rs = inds" "set rs \<subseteq> set xs" by auto
  obtain r where r: "r \<in> set xs" "fst r = i" using Cons.prems by auto
  have "map fst (r # rs) = i # inds \<and> set (r # rs) \<subseteq> set xs"
    using rs r by simp
  then show ?case by (rule exI)
qed


lemma same_label_same_row:
  "distinct (map fst xs) \<Longrightarrow> r \<in> set xs \<Longrightarrow> r' \<in> set xs \<Longrightarrow> fst r = fst r' \<Longrightarrow> r = r'"
  using filter_label_single [of xs r] filter_label_single [of xs r']
  by (metis list.inject)

lemma export_group_select:
  assumes len: "length (st_indices st) \<noteq> 1"
    and len2: "length (if st_indices st \<noteq> [] then st_indices st else frame_index g) \<noteq> 1"
    and loop: "select_indices g value_dim view_dims False
                 (if st_indices st \<noteq> [] then st_indices st else frame_index g) [] = Inr temp"
  shows "export_group self value_dim None view_dims vm st (k, g) =
             (case call_view_method vm self temp value_dim (''Index'' # view_dims) of
                Inl e \<Rightarrow> Inl e
              | Inr v \<Rightarrow>
                  Inr (st\<lparr>st_indices := (if st_indices st \<noteq> [] then st_indices st else frame_index g),
                          st_view_dimensions := ''Index'' # view_dims,
                          st_stack := dict_set (st_stack st) k v\<rparr>))"
proof -
  let ?st1 = "st\<lparr>st_indices := (if st_indices st \<noteq> [] then st_indices st else frame_index g),
                 st_view_dimensions := [''Index''] @ view_dims\<rparr>"
  have i: "st_indices ?st1 = (if st_indices st \<noteq> [] then st_indices st else frame_index g)"
    by simp
  have s: "select_indices g value_dim view_dims (length (st_indices ?st1) = 1) (st_indices ?st1) []
             = Inr temp"
    unfolding i using len2 loop by simp
  show ?thesis
    unfolding export_group_def Let_def fst_conv snd_conv
    using len s by (simp split: sum.splits)
qed

lemma key_label:
  "(if b then KScalar (fst r) else KTuple (fst r # f r)) =
   (if b then KScalar (fst r') else KTuple (fst r' # f r')) \<Longrightarrow> fst r = fst r'"
  by (cases b) simp_all

lemma selection_dict:
  assumes dl: "distinct (map fst xs)"
    and rs: "set rs \<subseteq> set xs"
  shows "(\<forall>r\<in>set xs. fst r \<in> fst ` set rs \<longrightarrow>
            map_of (foldl (\<lambda>t r. dict_set t (if b then KScalar (fst r) else KTuple (fst r # f r)) (V r)) [] rs)
              (if b then KScalar (fst r) else KTuple (fst r # f r)) = Some (V r)) \<and>
         length (foldl (\<lambda>t r. dict_set t (if b then KScalar (fst r) else KTuple (fst r # f r)) (V r)) [] rs)
           = card (fst ` set rs)"
proof -
  let ?K = "\<lambda>r. if b then KScalar (fst r) else KTuple (fst r # f r)"
  let ?temp = "foldl (\<lambda>t r. dict_set t (?K r) (V r)) [] rs"
  have same_row: "x = y" if "x \<in> set xs" "y \<in> set xs" "fst x = fst y" for x y
    using same_label_same_row [OF dl that] .
  have entry: "map_of ?temp (?K r) = Some (V r)" if r: "r \<in> set xs" and i: "fst r \<in> fst ` set rs" for r
  proof -
    obtain r' where r': "r' \<in> set rs" "fst r' = fst r"
      using i by auto
    have "r' \<in> set xs" using r'(1) rs by auto
    then have "r' = r" using same_row r r'(2) by blast
    then have rin: "r \<in> set rs" using r'(1) by simp
    have same: "\<forall>x\<in>set rs. ?K x = ?K r \<longrightarrow> V x = V r"
    proof (intro ballI impI)
      fix x assume x: "x \<in> set rs" and kx: "?K x = ?K r"
      have "fst x = fst r" using key_label [OF kx] .
      moreover have "x \<in> set xs" using x rs by auto
      ultimately have "x = r" using same_row r by blast
      then show "V x = V r" by simp
    qed
    have "r \<in> set rs \<or> map_of [] (?K r) = Some (V r)" using rin by simp
    then show ?thesis
      by (rule map_of_foldl_dict_set [where K = ?K and V = V and rs = rs and r = r and t = "[]", OF same])
  qed
  have dk: "distinct (map fst ?temp)"
    by (rule distinct_foldl_dict_set) simp
  have keys: "fst ` set ?temp = ?K ` set rs"
    using keys_foldl_dict_set [where K = ?K and V = V and t = "[]" and rs = rs] by simp
  have injK: "inj_on ?K (set rs)"
  proof (rule inj_onI)
    fix x y assume x: "x \<in> set rs" and y: "y \<in> set rs" and k: "?K x = ?K y"
    have "fst x = fst y" using key_label [OF k] .
    moreover have "x \<in> set xs" "y \<in> set xs" using x y rs by auto
    ultimately show "x = y" using same_row by blast
  qed
  have injf: "inj_on fst (set rs)"
  proof (rule inj_onI)
    fix x y assume x: "x \<in> set rs" and y: "y \<in> set rs" and k: "fst x = fst y"
    have "x \<in> set xs" "y \<in> set xs" using x y rs by auto
    then show "x = y" using same_row k by blast
  qed
  have "length ?temp = length (map fst ?temp)" by simp
  also have "\<dots> = card (set (map fst ?temp))" using dk by (simp only: distinct_card)
  also have "\<dots> = card (fst ` set ?temp)" by simp
  also have "\<dots> = card (?K ` set rs)" using keys by simp
  also have "\<dots> = card (set rs)" using injK by (rule card_image)
  also have "\<dots> = card (fst ` set rs)" using injf by (simp add: card_image)
  finally have count: "length ?temp = card (fst ` set rs)" .
  show ?thesis
    using entry count by blast
qed

text \<open>
  C3: in an export without a reduction function, rows that agree on the view dimensions
  are each to contribute an entry of their own, told apart by the leading row
  identifier. In the joined frame the label 0 names a row of group \<open>a\<close> and a row of
  group \<open>b\<close>, both with \<open>x = 1\<close> (and so does the label 1, with \<open>x = 2\<close>). Exported over
  \<open>x\<close>, the lookup of the label 0 finds two rows, the key built from it cannot be
  hashed, and the export raises \<open>TypeError\<close>: no mapping is returned. Exported with no
  view dimension, the rows under one label share one entry: the five rows give three
  entries.
\<close>

theorem rows_under_one_label_share_an_entry:
  "DFrameView_table joined_view ''v'' [] None [''x''] [] = Inl TypeError \<and>
   DFrameView_table joined_view ''v'' [] None [] [] =
     Inr (SingleView
       (Table [(KScalar (PInt 0), NonScalar),
               (KScalar (PInt 1), NonScalar),
               (KScalar (PInt 2), Scalar (PInt 50))]
          ''joined'' (Some (''v'', [DimLabel ''Index'']))))"
  by code_simp

text \<open>
  C3, as amended: the selection branch, for a stack group \<open>g\<close> whose row identifiers are
  distinct and in which the value dimension and each view dimension name exactly one
  column. \<open>inds\<close>
  is the index list the loop body selects: the list it receives, or all row identifiers
  of the group when that is empty. When \<open>inds\<close> has two or more entries, all of them
  rows of the group, the loop body builds a mapping \<open>temp\<close>, hands it to the view
  constructor with the dimension \<open>Index\<close> in front, and stores the view under the stack
  key. In \<open>temp\<close> every selected row has its own entry: its key starts with the row
  identifier, followed by the row's view-dimension values, and its value is the row's
  value cell; the mapping has as many entries as there are selected rows. Rows that
  agree on all view dimensions therefore never share a key. When \<open>g\<close> is the frame an
  export without stack dimensions works on, the export called with the received index
  list returns the view built from \<open>temp\<close>.
\<close>

theorem selected_rows_keep_distinct_entries:
  assumes d: "distinct (frame_index g)"
    and vi: "pos (columns g) value_dim = Some vi"
    and vone: "count_list (columns g) value_dim = 1"
    and vis: "list_all2 (\<lambda>c i. pos (columns g) c = Some i \<and> count_list (columns g) c = 1)
                view_dims vis"
    and inds: "inds = (if st_indices st \<noteq> [] then st_indices st else frame_index g)"
    and two: "2 \<le> length inds"
    and sub: "set inds \<subseteq> set (frame_index g)"
  shows "\<exists>temp.
           export_group self value_dim None view_dims vm st (k, g) =
             (case call_view_method vm self temp value_dim (''Index'' # view_dims) of
                Inl e \<Rightarrow> Inl e
              | Inr v \<Rightarrow>
                  Inr (st\<lparr>st_indices := inds, st_view_dimensions := ''Index'' # view_dims,
                          st_stack := dict_set (st_stack st) k v\<rparr>)) \<and>
           (\<forall>r\<in>set (rows g). fst r \<in> set inds \<longrightarrow>
              map_of temp (if view_dims = [] then KScalar (fst r)
                           else KTuple (fst r # map (\<lambda>i. snd r ! i) vis)) =
                Some (Scalar (snd r ! vi))) \<and>
           length temp = card (set inds) \<and>
           (check_dims (dimension_labels self) (value_dim # view_dims) = Inr () \<and>
            working_frame self (value_dim # view_dims) = g \<longrightarrow>
            DFrameView_export_dataview self value_dim (st_indices st) None view_dims [] vm stype =
              (case call_view_method vm self temp value_dim (''Index'' # view_dims) of
                 Inl e \<Rightarrow> Inl e
               | Inr v \<Rightarrow> Inr (SingleView v)))"
proof -
  let ?I = "if st_indices st \<noteq> [] then st_indices st else frame_index g"
  let ?f = "\<lambda>r::pyval \<times> pyval list. map (\<lambda>i. snd r ! i) vis"
  let ?V = "\<lambda>r::pyval \<times> pyval list. Scalar (snd r ! vi)"
  let ?st0 = "\<lparr>st_indices = st_indices st, st_view_dimensions = view_dims, st_stack = []\<rparr>"
  have dl: "distinct (map fst (rows g))"
    using d by (simp only: frame_index_def)
  have "set inds \<subseteq> fst ` set (rows g)"
    using sub by (simp add: frame_index_def)
  then obtain rs where rs1: "map fst rs = inds" and rs2: "set rs \<subseteq> set (rows g)"
    using rows_for_labels by blast
  let ?temp = "foldl (\<lambda>t r. dict_set t (if vis = [] then KScalar (fst r)
                                          else KTuple (fst r # ?f r)) (?V r)) [] rs"
  have loop0: "select_indices g value_dim view_dims False (map fst rs) [] = Inr ?temp"
    by (rule select_indices_rows [OF d vi vone vis rs2])
  have I: "?I = inds" using inds by (rule sym)
  have loop: "select_indices g value_dim view_dims False ?I [] = Inr ?temp"
    unfolding I using loop0 rs1 by simp
  have len: "length (st_indices st) \<noteq> 1"
  proof (cases "st_indices st = []")
    case True
    then show ?thesis by simp
  next
    case False
    then have "st_indices st = inds" using inds by simp
    then show ?thesis using two by simp
  qed
  have len2: "length ?I \<noteq> 1"
    unfolding I using two by simp
  have run: "export_group self value_dim None view_dims vm st (k, g) =
             (case call_view_method vm self ?temp value_dim (''Index'' # view_dims) of
                Inl e \<Rightarrow> Inl e
              | Inr v \<Rightarrow>
                  Inr (st\<lparr>st_indices := inds, st_view_dimensions := ''Index'' # view_dims,
                          st_stack := dict_set (st_stack st) k v\<rparr>))"
    using export_group_select [OF len len2 loop, of self vm k] unfolding I .
  have eq0: "st_indices ?st0 = st_indices st"
    by simp
  have len0: "length (st_indices ?st0) \<noteq> 1"
    unfolding eq0 by (rule len)
  have len20: "length (if st_indices ?st0 \<noteq> [] then st_indices ?st0 else frame_index g) \<noteq> 1"
    unfolding eq0 by (rule len2)
  have loop00: "select_indices g value_dim view_dims False
                  (if st_indices ?st0 \<noteq> [] then st_indices ?st0 else frame_index g) [] =
                Inr ?temp"
    unfolding eq0 by (rule loop)
  note run0 = export_group_select [OF len0 len20 loop00, of self vm None]
  have whole: "DFrameView_export_dataview self value_dim (st_indices st) None view_dims []
                 vm stype =
              (case call_view_method vm self ?temp value_dim (''Index'' # view_dims) of
                 Inl e \<Rightarrow> Inl e
               | Inr v \<Rightarrow> Inr (SingleView v))"
    if chk: "check_dims (dimension_labels self) (value_dim # view_dims) = Inr ()"
      and wf: "working_frame self (value_dim # view_dims) = g"
    unfolding export_without_stack_is_one_group [OF chk] wf run0
    by (simp split: sum.splits)
  have e: "(vis = []) = (view_dims = [])"
    using list_all2_lengthD [OF vis] by auto
  have fs: "fst ` set rs = set inds"
    using rs1 by (metis set_map)
  note sd = selection_dict [OF dl rs2, where b = "vis = []" and f = ?f and V = ?V]
  have entries: "\<forall>r\<in>set (rows g). fst r \<in> set inds \<longrightarrow>
              map_of ?temp (if view_dims = [] then KScalar (fst r)
                           else KTuple (fst r # map (\<lambda>i. snd r ! i) vis)) =
                Some (Scalar (snd r ! vi))"
    using sd unfolding fs e by blast
  have count: "length ?temp = card (set inds)"
    using sd unfolding fs by blast
  show ?thesis
    using run entries count whole by blast
qed

theorem selected_rows_keep_distinct_entries_witness:
  "distinct (frame_index demo_working) \<and>
   2 \<le> length (frame_index demo_working) \<and>
   check_dims (dimension_labels demo_view) [''v'', ''x''] = Inr () \<and>
   working_frame demo_view [''v'', ''x''] = demo_working \<and>
   (\<exists>temp.
      export_group demo_view ''v'' None [''x''] create_table
          \<lparr>st_indices = [], st_view_dimensions = [''x''], st_stack = []\<rparr> (None, demo_working) =
        Inr \<lparr>st_indices = [PInt 0, PInt 1, PInt 2],
             st_view_dimensions = [''Index'', ''x''],
             st_stack = [(None, Table temp ''demo''
                            (Some (''v'', [DimLabel ''Index'', DimObj (Dimension ''x'')])))]\<rparr> \<and>
      map_of temp (KTuple [PInt 0, PInt 1]) = Some (Scalar (PInt 10)) \<and>
      map_of temp (KTuple [PInt 1, PInt 1]) = Some (Scalar (PInt 20)) \<and>
      map_of temp (KTuple [PInt 2, PInt 1]) = Some (Scalar (PInt 30)) \<and>
      length temp = 3 \<and>
      DFrameView_export_dataview demo_view ''v'' [] None [''x''] [] create_table TableStack =
        Inr (SingleView (Table temp ''demo''
               (Some (''v'', [DimLabel ''Index'', DimObj (Dimension ''x'')])))))"
proof -
  let ?st = "\<lparr>st_indices = [], st_view_dimensions = [''x''], st_stack = []\<rparr>"
  have d: "distinct (frame_index demo_working)"
    by (simp add: frame_index_def demo_working_def)
  have vi: "pos (columns demo_working) ''v'' = Some 0"
    by (simp add: demo_working_def)
  have vone: "count_list (columns demo_working) ''v'' = 1"
    by (simp add: demo_working_def)
  have vis: "list_all2 (\<lambda>c i. pos (columns demo_working) c = Some i \<and>
                               count_list (columns demo_working) c = 1) [''x''] [1]"
    by (simp add: demo_working_def)
  have inds: "frame_index demo_working =
                (if st_indices ?st \<noteq> [] then st_indices ?st else frame_index demo_working)"
    by simp
  have two: "2 \<le> length (frame_index demo_working)"
    by (simp add: frame_index_def demo_working_def)
  have sub: "set (frame_index demo_working) \<subseteq> set (frame_index demo_working)"
    by simp
  have fi: "frame_index demo_working = [PInt 0, PInt 1, PInt 2]"
    by (simp add: frame_index_def demo_working_def)
  have c: "card (set (frame_index demo_working)) = 3"
    unfolding fi by simp
  have rs: "rows demo_working = [(PInt 0, [PInt 10, PInt 1]),
              (PInt 1, [PInt 20, PInt 1]),
              (PInt 2, [PInt 30, PInt 1])]"
    by (simp add: demo_working_def)
  have chk: "check_dims (dimension_labels demo_view) [''v'', ''x''] = Inr ()"
    by (simp add: dimension_labels_def demo_view_def demo_dims_def)
  have dg: "dim_dict_get demo_view ''x'' = DimObj (Dimension ''x'')"
       "dim_dict_get demo_view ''Index'' = DimLabel ''Index''"
       "label demo_view = ''demo''"
    by (simp_all add: dim_dict_get_def demo_view_def demo_dims_def)
  from selected_rows_keep_distinct_entries
         [OF d vi vone vis inds two sub, of demo_view create_table None TableStack]
  obtain temp where
    t1: "export_group demo_view ''v'' None [''x''] create_table ?st (None, demo_working) =
           (case call_view_method create_table demo_view temp ''v'' (''Index'' # [''x'']) of
              Inl e \<Rightarrow> Inl e
            | Inr v \<Rightarrow>
                Inr (?st\<lparr>st_indices := frame_index demo_working,
                         st_view_dimensions := ''Index'' # [''x''],
                         st_stack := dict_set (st_stack ?st) None v\<rparr>))"
    and t2: "\<forall>r\<in>set (rows demo_working). fst r \<in> set (frame_index demo_working) \<longrightarrow>
              map_of temp (if [''x''] = [] then KScalar (fst r)
                           else KTuple (fst r # map (\<lambda>i. snd r ! i) [1])) =
                Some (Scalar (snd r ! 0))"
    and t3: "length temp = card (set (frame_index demo_working))"
    and t4: "check_dims (dimension_labels demo_view) (''v'' # [''x'']) = Inr () \<and>
             working_frame demo_view (''v'' # [''x'']) = demo_working \<longrightarrow>
             DFrameView_export_dataview demo_view ''v'' (st_indices ?st) None [''x''] []
                 create_table TableStack =
               (case call_view_method create_table demo_view temp ''v'' (''Index'' # [''x'']) of
                  Inl e \<Rightarrow> Inl e
                | Inr v \<Rightarrow> Inr (SingleView v))"
    by blast
  have e: "export_group demo_view ''v'' None [''x''] create_table ?st (None, demo_working) =
        Inr \<lparr>st_indices = [PInt 0, PInt 1, PInt 2],
             st_view_dimensions = [''Index'', ''x''],
             st_stack = [(None, Table temp ''demo''
                            (Some (''v'', [DimLabel ''Index'', DimObj (Dimension ''x'')])))]\<rparr>"
    using t1 dg fi by (simp add: DFrameView_create_table_def)
  have m: "map_of temp (KTuple [PInt 0, PInt 1]) = Some (Scalar (PInt 10)) \<and>
      map_of temp (KTuple [PInt 1, PInt 1]) = Some (Scalar (PInt 20)) \<and>
      map_of temp (KTuple [PInt 2, PInt 1]) = Some (Scalar (PInt 30))"
    using t2 unfolding rs fi by simp
  have l: "length temp = 3" using t3 c by simp
  have x: "DFrameView_export_dataview demo_view ''v'' [] None [''x''] [] create_table TableStack =
        Inr (SingleView (Table temp ''demo''
               (Some (''v'', [DimLabel ''Index'', DimObj (Dimension ''x'')]))))"
    using t4 chk demo_working_frame dg by (simp add: DFrameView_create_table_def)
  show ?thesis
    using d two chk demo_working_frame e m l x by blast
qed

text \<open>The whole export on the demo frame, whose three rows agree on the view dimension.\<close>

lemma table_rows_sharing_dims_demo:
  "DFrameView_table demo_view ''v'' [] None [''x''] [] =
     Inr (SingleView
       (Table [(KTuple [PInt 0, PInt 1], Scalar (PInt 10)),
               (KTuple [PInt 1, PInt 1], Scalar (PInt 20)),
               (KTuple [PInt 2, PInt 1], Scalar (PInt 30))]
          ''demo'' (Some (''v'', [DimLabel ''Index'', DimObj (Dimension ''x'')]))))"
  by code_simp

end
